theory Spec2Isabelle
  imports Main "HOL-Library.Multiset"
begin

section \<open>The \<open>users\<close> table of \<open>app.py\<close>\<close>

text \<open>
  \<open>app.py\<close> keeps one SQLite table, created by \<open>init_db\<close>:
  \<^verbatim>\<open>
  CREATE TABLE IF NOT EXISTS users (
      id INTEGER PRIMARY KEY AUTOINCREMENT,
      name TEXT NOT NULL,
      usage_mode TEXT CHECK(usage_mode IN ('online','offline')),
      image_path TEXT,
      detected_emotion TEXT,
      timestamp DATETIME DEFAULT CURRENT_TIMESTAMP)
  \<close>
  A row is a record with one field per column. Only \<open>name\<close> is declared \<open>NOT NULL\<close>;
  the three other text columns may hold SQL \<open>NULL\<close> (Python's \<open>None\<close>) and are options.
  \<open>timestamp\<close> is what \<open>CURRENT_TIMESTAMP\<close> gave at the insert: the UTC time at second
  granularity, \<open>'YYYY-MM-DD HH:MM:SS'\<close>. The text is fixed-width, so its order as text is
  the order of the instants; the model keeps the instant, in seconds.
\<close>

record row =
  row_id :: nat
  name :: string
  usage_mode :: "string option"
  image_path :: "string option"
  detected_emotion :: "string option"
  timestamp :: nat

text \<open>
  The database file: the table is absent (\<open>None\<close>) or holds its rows, oldest insert
  first; \<open>sqlite_sequence\<close> is SQLite's counter for the \<open>AUTOINCREMENT\<close> column, the
  largest id handed out so far. Failures of the medium itself (disk full, locked file,
  the id space of \<open>2^63 - 1\<close> used up) are outside the model.
\<close>

record database =
  users_table :: "row list option"
  sqlite_sequence :: nat

datatype db_error =
    OperationalError_no_such_table
  | IntegrityError_NOT_NULL
  | IntegrityError_CHECK

text \<open>\<open>init_db\<close> (lines 26-41): \<open>CREATE TABLE IF NOT EXISTS\<close>.\<close>

definition init_db :: "database \<Rightarrow> database" where
  "init_db d =
     (case users_table d of
        None \<Rightarrow> d\<lparr>users_table := Some []\<rparr>
      | Some rows \<Rightarrow> d)"

text \<open>
  \<open>CHECK(usage_mode IN ('online','offline'))\<close>: a \<open>CHECK\<close> constraint is violated only
  when its expression is false; \<open>NULL IN (...)\<close> is \<open>NULL\<close>, which is not false. Text
  comparison is case sensitive.
\<close>

definition usage_mode_check :: "string option \<Rightarrow> bool" where
  "usage_mode_check m =
     (case m of
        None \<Rightarrow> True
      | Some s \<Rightarrow> s = ''online'' \<or> s = ''offline'')"

text \<open>
  An \<open>AUTOINCREMENT\<close> id is one more than the largest id the table has ever held: the
  maximum of the counter and of the ids present.
\<close>

definition next_rowid :: "database \<Rightarrow> row list \<Rightarrow> nat" where
  "next_rowid d rows = Suc (fold max (map row_id rows) (sqlite_sequence d))"

text \<open>
  \<open>save_user_result\<close> (lines 43-52): one \<open>INSERT\<close> of the four given columns; the store
  assigns \<open>id\<close> and \<open>timestamp\<close>. The first argument is the reading of the store's clock
  at the insert. \<open>cursor.execute\<close> raises \<open>sqlite3.OperationalError\<close> when the table is
  missing and \<open>sqlite3.IntegrityError\<close> when a constraint fails (\<open>NOT NULL\<close> is tested
  before \<open>CHECK\<close>); the statement then changes nothing and \<open>commit\<close> is not reached.
\<close>

definition save_user_result ::
  "nat \<Rightarrow> database \<Rightarrow> string option \<Rightarrow> string option \<Rightarrow> string option \<Rightarrow> string option
    \<Rightarrow> db_error + database" where
  "save_user_result current_timestamp d nm mode path emotion =
     (case users_table d of
        None \<Rightarrow> Inl OperationalError_no_such_table
      | Some rows \<Rightarrow>
          (case nm of
             None \<Rightarrow> Inl IntegrityError_NOT_NULL
           | Some n \<Rightarrow>
               if \<not> usage_mode_check mode then Inl IntegrityError_CHECK
               else
                 let i = next_rowid d rows in
                 Inr (d\<lparr>users_table :=
                          Some (rows @ [\<lparr>row_id = i, name = n, usage_mode = mode,
                                         image_path = path, detected_emotion = emotion,
                                         timestamp = current_timestamp\<rparr>]),
                        sqlite_sequence := i\<rparr>)))"

text \<open>
  The query of \<open>users\<close> (lines 107-111): \<open>SELECT * FROM users ORDER BY timestamp DESC\<close>.
  SQLite scans the table in id order and sorts the scan; rows with the same timestamp
  come out in scan order. \<open>insert_desc\<close> puts a row behind every row that is not older.
\<close>

fun insert_desc :: "row \<Rightarrow> row list \<Rightarrow> row list" where
  "insert_desc r [] = [r]"
| "insert_desc r (x # xs) =
     (if timestamp x < timestamp r then r # x # xs else x # insert_desc r xs)"

definition order_by_timestamp_desc :: "row list \<Rightarrow> row list" where
  "order_by_timestamp_desc rows = fold insert_desc rows []"

definition users_select :: "database \<Rightarrow> db_error + row list" where
  "users_select d =
     (case users_table d of
        None \<Rightarrow> Inl OperationalError_no_such_table
      | Some rows \<Rightarrow> Inr (order_by_timestamp_desc rows))"

section \<open>Frames, the clock and the artifact store\<close>

text \<open>
  An image is the pixel data the camera delivered (named by a number) or the result of
  drawing a text onto an image, with the arguments of \<open>cv2.putText\<close>: text, origin, font
  face, font scale, colour, thickness. The rendering itself belongs to OpenCV.
\<close>

datatype image =
    Captured nat
  | PutText image string "nat \<times> nat" nat nat "nat \<times> nat \<times> nat" nat

text \<open>
  A frame is a NumPy array, a mutable object: Python variables hold references to it.
  The store maps the address of each array to its present contents.
\<close>

type_synonym addr = nat
type_synonym arrays = "addr \<rightharpoonup> image"

text \<open>
  \<open>cv2.putText(img, text, org, fontFace, fontScale, color, thickness)\<close> draws into the
  array it is given: the contents at that address are replaced, no array is allocated.
\<close>

definition cv2_putText ::
  "arrays \<Rightarrow> addr \<Rightarrow> string \<Rightarrow> nat \<times> nat \<Rightarrow> nat \<Rightarrow> nat \<Rightarrow> nat \<times> nat \<times> nat \<Rightarrow> nat \<Rightarrow> arrays" where
  "cv2_putText h img text org fontFace fontScale color thickness =
     (case h img of
        None \<Rightarrow> h
      | Some pixels \<Rightarrow> h(img \<mapsto> PutText pixels text org fontFace fontScale color thickness))"

definition FONT_HERSHEY_SIMPLEX :: nat where
  "FONT_HERSHEY_SIMPLEX = 0"

text \<open>\<open>cv2.imwrite(filename, img)\<close>: the file of that name now holds the array's contents.\<close>

definition cv2_imwrite :: "(string \<rightharpoonup> image) \<Rightarrow> string \<Rightarrow> arrays \<Rightarrow> addr \<Rightarrow> (string \<rightharpoonup> image)" where
  "cv2_imwrite fs filename h img =
     (case h img of
        None \<Rightarrow> fs
      | Some pixels \<Rightarrow> fs(filename \<mapsto> pixels))"

text \<open>
  Bytes: runs of literal text and JPEG encodings of images.
  \<open>cv2.imencode('.jpg', img)[1].tobytes()\<close> is the encoding of the array's contents.
\<close>

datatype chunk = Ascii string | Jpeg image

definition cv2_imencode_jpg :: "arrays \<Rightarrow> addr \<Rightarrow> chunk list" where
  "cv2_imencode_jpg h img =
     (case h img of
        None \<Rightarrow> []
      | Some pixels \<Rightarrow> [Jpeg pixels])"

definition CRLF :: string where
  "CRLF = [CHR 0x0D, CHR 0x0A]"

text \<open>
  \<open>datetime.now()\<close> is a reading of the local wall clock with its fields;
  \<open>strftime('%Y%m%d_%H%M%S')\<close> prints six of them, zero-padded, and leaves
  \<open>microsecond\<close> out.
\<close>

record datetime =
  year :: nat
  month :: nat
  day :: nat
  hour :: nat
  minute :: nat
  second :: nat
  microsecond :: nat

fun decimal :: "nat \<Rightarrow> string" where
  "decimal n =
     (if n < 10 then [''0123456789'' ! n]
      else decimal (n div 10) @ [''0123456789'' ! (n mod 10)])"

declare decimal.simps [simp del]

definition zero_pad :: "nat \<Rightarrow> string \<Rightarrow> string" where
  "zero_pad w s = replicate (w - length s) (CHR ''0'') @ s"

definition strftime_Ymd_HMS :: "datetime \<Rightarrow> string" where
  "strftime_Ymd_HMS t =
     zero_pad 4 (decimal (year t)) @ zero_pad 2 (decimal (month t)) @
     zero_pad 2 (decimal (day t)) @ ''_'' @
     zero_pad 2 (decimal (hour t)) @ zero_pad 2 (decimal (minute t)) @
     zero_pad 2 (decimal (second t))"

text \<open>Line 79: \<open>f"captured/{datetime.now().strftime('%Y%m%d_%H%M%S')}.jpg"\<close>.\<close>

definition image_filename :: "datetime \<Rightarrow> string" where
  "image_filename t = ''captured/'' @ strftime_Ymd_HMS t @ ''.jpg''"

section \<open>The frame loop \<open>generate_frames\<close>\<close>

text \<open>
  \<open>DeepFace.analyze\<close> raises, or returns a list with one dictionary per face. Of a
  dictionary the model keeps the entries that hold text.
\<close>

type_synonym face = "(string \<times> string) list"

datatype analysis = Raises | Returns "face list"

text \<open>
  Lines 67-71. \<open>result[0]\<close> raises \<open>IndexError\<close> on an empty list and
  \<open>['dominant_emotion']\<close> raises \<open>KeyError\<close> on a dictionary without that key; the bare
  \<open>except:\<close> catches these and whatever \<open>DeepFace.analyze\<close> raised.
\<close>

definition analyze_emotion :: "analysis \<Rightarrow> string" where
  "analyze_emotion result =
     (case result of
        Raises \<Rightarrow> ''No face detected''
      | Returns [] \<Rightarrow> ''No face detected''
      | Returns (first # others) \<Rightarrow>
          (case map_of first ''dominant_emotion'' of
             None \<Rightarrow> ''No face detected''
           | Some emotion \<Rightarrow> emotion))"

text \<open>
  What the loop works on: the database, the files under \<open>captured/\<close>, the arrays, and
  the address the next array from \<open>cap.read()\<close> will get. (\<open>os.makedirs\<close> with
  \<open>exist_ok=True\<close> makes sure the directory is there, or raises.)
\<close>

record world =
  db :: database
  files :: "string \<rightharpoonup> image"
  heap :: arrays
  next_addr :: addr

text \<open>
  Lines 74-86 are outside the \<open>try\<close>, and four of their calls go into OpenCV and the
  operating system, where they may raise: \<open>cv2.putText\<close> raises \<open>cv2.error\<close> on an
  array it cannot draw on (a malformed frame), \<open>os.makedirs\<close> raises \<open>OSError\<close> when
  the directory cannot be made, \<open>cv2.imwrite\<close> and \<open>cv2.imencode\<close> raise \<open>cv2.error\<close>
  on an array they cannot encode. Whether one of them raises in a pass is decided
  outside the program.
\<close>

datatype raise_site = At_putText | At_makedirs | At_imwrite | At_imencode

datatype py_error = sqlite3_Error db_error | cv2_error | OSError

text \<open>
  What one pass of the loop meets from outside: the result of \<open>cap.read()\<close> (\<open>None\<close>
  when \<open>success\<close> is false), the local clock at \<open>datetime.now()\<close>, the store's
  clock at the insert, and the call outside the \<open>try\<close> that raises in this pass, if
  one does (the first one: the pass ends there).
\<close>

record tick =
  cap_read :: "image option"
  datetime_now :: datetime
  CURRENT_TIMESTAMP :: nat
  raising :: "raise_site option"

text \<open>
  The \<open>else\<close> branch of the loop body (lines 66-90) for a frame that was read, in a
  pass in which every call into OpenCV and the operating system returns. The variable
  \<open>frame\<close> refers to one array from \<open>cap.read()\<close> until line 87 rebinds it to the
  encoded bytes. An exception of \<open>save_user_result\<close> is not caught: it ends the
  generator after the file was written.
\<close>

definition iteration ::
  "(image \<Rightarrow> analysis) \<Rightarrow> world \<Rightarrow> image \<Rightarrow> datetime \<Rightarrow> nat \<Rightarrow> world \<times> (db_error + chunk list)" where
  "iteration DeepFace_analyze w pixels now ts =
     (let frame = next_addr w;
          h0 = (heap w)(frame \<mapsto> pixels);
          emotion = analyze_emotion (DeepFace_analyze pixels);
          h1 = cv2_putText h0 frame (''Mood: '' @ emotion) (50, 50)
                 FONT_HERSHEY_SIMPLEX 1 (0, 255, 0) 2;
          filename = image_filename now;
          w1 = w\<lparr>files := cv2_imwrite (files w) filename h1 frame,
                 heap := h1, next_addr := Suc frame\<rparr>
      in case save_user_result ts (db w) (Some ''Anonymous'') (Some ''online'')
                (Some filename) (Some emotion) of
           Inl e \<Rightarrow> (w1, Inl e)
         | Inr d \<Rightarrow>
             (w1\<lparr>db := d\<rparr>,
              Inr ([Ascii (''--frame'' @ CRLF @ ''Content-Type: image/jpeg'' @ CRLF @ CRLF)]
                   @ cv2_imencode_jpg h1 frame @ [Ascii CRLF])))"

text \<open>
  The \<open>else\<close> branch with every raise site of lines 66-90: the pass for a frame that
  was read, given the call that raises in it, if any. Whatever \<open>DeepFace.analyze\<close>
  raises is caught (lines 70-71); an exception of a later line is caught nowhere and
  ends the generator with the effects of the lines before it in place.
\<close>

definition loop_body ::
  "(image \<Rightarrow> analysis) \<Rightarrow> world \<Rightarrow> image \<Rightarrow> datetime \<Rightarrow> nat \<Rightarrow> raise_site option
    \<Rightarrow> world \<times> (py_error + chunk list)" where
  "loop_body DeepFace_analyze w pixels now ts site =
     (let frame = next_addr w;
          h0 = (heap w)(frame \<mapsto> pixels);
          w0 = w\<lparr>heap := h0, next_addr := Suc frame\<rparr>;
          emotion = analyze_emotion (DeepFace_analyze pixels)
      in if site = Some At_putText then (w0, Inl cv2_error)
      else
        let h1 = cv2_putText h0 frame (''Mood: '' @ emotion) (50, 50)
                   FONT_HERSHEY_SIMPLEX 1 (0, 255, 0) 2;
            w1 = w0\<lparr>heap := h1\<rparr>
        in if site = Some At_makedirs then (w1, Inl OSError)
        else
          let filename = image_filename now
          in if site = Some At_imwrite then (w1, Inl cv2_error)
          else
            let w2 = w1\<lparr>files := cv2_imwrite (files w) filename h1 frame\<rparr>
            in case save_user_result ts (db w) (Some ''Anonymous'') (Some ''online'')
                      (Some filename) (Some emotion) of
                 Inl e \<Rightarrow> (w2, Inl (sqlite3_Error e))
               | Inr d \<Rightarrow>
                   if site = Some At_imencode then (w2\<lparr>db := d\<rparr>, Inl cv2_error)
                   else
                     (w2\<lparr>db := d\<rparr>,
                      Inr ([Ascii (''--frame'' @ CRLF @ ''Content-Type: image/jpeg'' @ CRLF
                                   @ CRLF)]
                           @ cv2_imencode_jpg h1 frame @ [Ascii CRLF])))"

text \<open>
  The generator, run until it ends, over the successive results of \<open>cap.read()\<close>; a
  camera with no result left reports failure. The run gives the final world, the
  payloads yielded in order, and how the generator ended: by leaving the loop
  (\<open>StopIteration\<close> for the consumer) or by an exception.
\<close>

datatype finish = StopIteration | Raised py_error

fun generate_frames ::
  "(image \<Rightarrow> analysis) \<Rightarrow> world \<Rightarrow> tick list \<Rightarrow> world \<times> chunk list list \<times> finish" where
  "generate_frames DeepFace_analyze w [] = (w, [], StopIteration)"
| "generate_frames DeepFace_analyze w (t # ts) =
     (case cap_read t of
        None \<Rightarrow> (w, [], StopIteration)
      | Some pixels \<Rightarrow>
          (case loop_body DeepFace_analyze w pixels (datetime_now t) (CURRENT_TIMESTAMP t)
                  (raising t) of
             (w', Inl e) \<Rightarrow> (w', [], Raised e)
           | (w', Inr payload) \<Rightarrow>
               (case generate_frames DeepFace_analyze w' ts of
                  (w'', payloads, fin) \<Rightarrow> (w'', payload # payloads, fin))))"

text \<open>
  The frames the loop takes through the insert of line 83, each with the two clock
  readings of its pass: those read before the first read that fails and before the
  first pass that ends earlier by an exception. (A pass in which \<open>cv2.imencode\<close> raises
  has made its insert; it is the last.)
\<close>

fun processed :: "tick list \<Rightarrow> (image \<times> datetime \<times> nat) list" where
  "processed [] = []"
| "processed (t # ts) =
     (case cap_read t of
        None \<Rightarrow> []
      | Some pixels \<Rightarrow>
          (case raising t of
             None \<Rightarrow> (pixels, datetime_now t, CURRENT_TIMESTAMP t) # processed ts
           | Some At_imencode \<Rightarrow> [(pixels, datetime_now t, CURRENT_TIMESTAMP t)]
           | Some _ \<Rightarrow> []))"

text \<open>
  Notation for the statements below: the frame after line 74 has drawn the label, and
  the row that line 83 has inserted for a frame once the store gave it the id \<open>i\<close>.
\<close>

abbreviation annotated :: "(image \<Rightarrow> analysis) \<Rightarrow> image \<Rightarrow> image" where
  "annotated A px \<equiv>
     PutText px (''Mood: '' @ analyze_emotion (A px)) (50, 50) FONT_HERSHEY_SIMPLEX 1 (0, 255, 0) 2"

abbreviation detection_record :: "(image \<Rightarrow> analysis) \<Rightarrow> nat \<Rightarrow> image \<times> datetime \<times> nat \<Rightarrow> row" where
  "detection_record A i fr \<equiv>
     \<lparr>row_id = i, name = ''Anonymous'', usage_mode = Some ''online'',
      image_path = Some (image_filename (fst (snd fr))),
      detected_emotion = Some (analyze_emotion (A (fst fr))),
      timestamp = snd (snd fr)\<rparr>"

section \<open>Facts about the store\<close>

lemma fold_max_absorb: "\<forall>x \<in> set xs. x \<le> a \<Longrightarrow> fold max xs (a::nat) = a"
  by (induction xs) (auto simp: max_def)

lemma fold_max_upper: "x \<in> set xs \<Longrightarrow> x \<le> fold max xs (a::nat)"
proof (induction xs arbitrary: a)
  case Nil
  then show ?case by simp
next
  case (Cons y ys)
  have mono: "b \<le> fold max ys b" for b :: nat
    by (induction ys arbitrary: b) (auto intro: order_trans [OF max.cobounded2])
  show ?case
  proof (cases "x = y")
    case True
    have "y \<le> max y a" by simp
    also have "\<dots> \<le> fold max ys (max y a)" by (rule mono)
    finally show ?thesis using True by simp
  next
    case False
    with Cons.prems have "x \<in> set ys" by simp
    then show ?thesis using Cons.IH by simp
  qed
qed

lemma next_rowid_fresh: "r \<in> set rows \<Longrightarrow> row_id r < next_rowid d rows"
  using fold_max_upper [of "row_id r" "map row_id rows" "sqlite_sequence d"]
  by (simp add: next_rowid_def less_Suc_eq_le)

lemma next_rowid_after_insert:
  "row_id r = next_rowid d rows \<Longrightarrow>
   next_rowid (d\<lparr>users_table := tbl, sqlite_sequence := next_rowid d rows\<rparr>) (rows @ [r])
     = Suc (next_rowid d rows)"
proof -
  assume r: "row_id r = next_rowid d rows"
  have "\<forall>x \<in> set (map row_id rows). x \<le> next_rowid d rows"
    using next_rowid_fresh [of _ rows d] by (auto simp: less_imp_le)
  then have "fold max (map row_id rows) (next_rowid d rows) = next_rowid d rows"
    by (rule fold_max_absorb)
  then show ?thesis using r by (simp add: next_rowid_def)
qed

lemma mset_insert_desc: "mset (insert_desc r xs) = add_mset r (mset xs)"
  by (induction xs) auto

lemma set_insert_desc: "set (insert_desc r xs) = insert r (set xs)"
  by (induction xs) auto

lemma mset_fold_insert_desc: "mset (fold insert_desc rows acc) = mset rows + mset acc"
  by (induction rows arbitrary: acc) (auto simp: mset_insert_desc)

lemma sorted_insert_desc:
  "sorted_wrt (\<lambda>a b. timestamp b \<le> timestamp a) xs
    \<Longrightarrow> sorted_wrt (\<lambda>a b. timestamp b \<le> timestamp a) (insert_desc r xs)"
  by (induction xs) (auto simp: set_insert_desc)

lemma sorted_fold_insert_desc:
  "sorted_wrt (\<lambda>a b. timestamp b \<le> timestamp a) acc
    \<Longrightarrow> sorted_wrt (\<lambda>a b. timestamp b \<le> timestamp a) (fold insert_desc rows acc)"
  by (induction rows arbitrary: acc) (auto simp: sorted_insert_desc)

lemma insert_desc_newest:
  "\<forall>a \<in> set acc. timestamp a < timestamp r \<Longrightarrow> insert_desc r acc = r # acc"
  by (cases acc) auto

lemma fold_insert_desc_increasing:
  "sorted_wrt (<) (map timestamp rows)
    \<Longrightarrow> \<forall>a \<in> set acc. \<forall>r \<in> set rows. timestamp a < timestamp r
    \<Longrightarrow> fold insert_desc rows acc = rev rows @ acc"
proof (induction rows arbitrary: acc)
  case Nil
  then show ?case by simp
next
  case (Cons r rs)
  have front: "insert_desc r acc = r # acc"
    using Cons.prems(2) by (intro insert_desc_newest) simp
  have "fold insert_desc rs (r # acc) = rev rs @ r # acc"
    using Cons.prems by (intro Cons.IH) auto
  with front show ?case by simp
qed

section \<open>Facts about the loop\<close>

lemma iteration_ok:
  assumes "users_table (db w) = Some rows"
  shows "iteration A w px now ts =
    (w\<lparr>files := (files w)(image_filename now \<mapsto> annotated A px),
       heap := (heap w)(next_addr w \<mapsto> annotated A px),
       next_addr := Suc (next_addr w),
       db := (db w)\<lparr>users_table :=
                       Some (rows @ [detection_record A (next_rowid (db w) rows) (px, now, ts)]),
                     sqlite_sequence := next_rowid (db w) rows\<rparr>\<rparr>,
     Inr [Ascii (''--frame'' @ CRLF @ ''Content-Type: image/jpeg'' @ CRLF @ CRLF),
          Jpeg (annotated A px), Ascii CRLF])"
  using assms
  by (simp add: iteration_def save_user_result_def usage_mode_check_def cv2_putText_def
      cv2_imwrite_def cv2_imencode_jpg_def Let_def)

lemma files_iteration:
  "files (fst (iteration A w px now ts)) =
     (files w)(image_filename now \<mapsto> annotated A px)"
  by (simp add: iteration_def cv2_putText_def cv2_imwrite_def Let_def split: sum.splits)

lemma heap_iteration:
  "heap (fst (iteration A w px now ts)) = (heap w)(next_addr w \<mapsto> annotated A px)"
  by (simp add: iteration_def cv2_putText_def Let_def split: sum.splits)

lemma map2_row_id:
  "length is = length frs \<Longrightarrow> map row_id (map2 (detection_record A) is frs) = is"
  by (induction "is" frs rule: list_induct2) auto

lemma map2_columns:
  "length is = length frs \<Longrightarrow>
   map detected_emotion (map2 (detection_record A) is frs)
     = map (\<lambda>fr. Some (analyze_emotion (A (fst fr)))) frs \<and>
   map image_path (map2 (detection_record A) is frs)
     = map (\<lambda>fr. Some (image_filename (fst (snd fr)))) frs \<and>
   map timestamp (map2 (detection_record A) is frs) = map (\<lambda>fr. snd (snd fr)) frs"
  by (induction "is" frs rule: list_induct2) auto

lemma loop_body_no_raise:
  "loop_body A w px now ts None =
     (fst (iteration A w px now ts), map_sum sqlite3_Error id (snd (iteration A w px now ts)))"
  by (simp add: loop_body_def iteration_def Let_def split: sum.splits)

lemma loop_body_ok:
  assumes "users_table (db w) = Some rows"
  shows "loop_body A w px now ts None =
    (w\<lparr>files := (files w)(image_filename now \<mapsto> annotated A px),
       heap := (heap w)(next_addr w \<mapsto> annotated A px),
       next_addr := Suc (next_addr w),
       db := (db w)\<lparr>users_table :=
                       Some (rows @ [detection_record A (next_rowid (db w) rows) (px, now, ts)]),
                     sqlite_sequence := next_rowid (db w) rows\<rparr>\<rparr>,
     Inr [Ascii (''--frame'' @ CRLF @ ''Content-Type: image/jpeg'' @ CRLF @ CRLF),
          Jpeg (annotated A px), Ascii CRLF])"
  by (simp add: loop_body_no_raise iteration_ok [OF assms])

lemma loop_body_raises:
  assumes "users_table (db w) = Some rows"
  shows "snd (loop_body A w px now ts (Some site)) =
      Inl (if site = At_makedirs then OSError else cv2_error) \<and>
    db (fst (loop_body A w px now ts (Some site))) =
      (if site = At_imencode
       then (db w)\<lparr>users_table :=
                      Some (rows @ [detection_record A (next_rowid (db w) rows) (px, now, ts)]),
                    sqlite_sequence := next_rowid (db w) rows\<rparr>
       else db w)"
  using assms
  by (cases site)
     (simp_all add: loop_body_def save_user_result_def usage_mode_check_def Let_def)

lemma generate_frames_rows:
  "users_table (db w) = Some rows \<Longrightarrow>
   users_table (db (fst (generate_frames A w ticks))) =
     Some (rows @ map2 (detection_record A)
       [next_rowid (db w) rows ..< next_rowid (db w) rows + length (processed ticks)]
       (processed ticks))"
proof (induction ticks arbitrary: w rows)
  case Nil
  then show ?case by simp
next
  case (Cons t ticks)
  show ?case
  proof (cases "cap_read t")
    case None
    with Cons.prems show ?thesis by simp
  next
    case (Some px)
    let ?i = "next_rowid (db w) rows"
    let ?r = "detection_record A ?i (px, datetime_now t, CURRENT_TIMESTAMP t)"
    let ?d = "(db w)\<lparr>users_table := Some (rows @ [?r]), sqlite_sequence := ?i\<rparr>"
    show ?thesis
    proof (cases "raising t")
      case None
      obtain w1 payload where
        it: "loop_body A w px (datetime_now t) (CURRENT_TIMESTAMP t) None = (w1, Inr payload)"
        and d1: "db w1 = ?d"
        using loop_body_ok [OF Cons.prems] by simp
      from d1 have tbl: "users_table (db w1) = Some (rows @ [?r])" by simp
      have nxt: "next_rowid (db w1) (rows @ [?r]) = Suc ?i"
        by (subst d1, rule next_rowid_after_insert) simp
      have "[?i ..< ?i + Suc (length (processed ticks))]
          = ?i # [Suc ?i ..< ?i + Suc (length (processed ticks))]"
        by (rule upt_conv_Cons) simp
      then have upt: "[?i ..< Suc (?i + length (processed ticks))]
          = ?i # [Suc ?i ..< Suc (?i + length (processed ticks))]"
        by simp
      obtain w2 ps fin where run: "generate_frames A w1 ticks = (w2, ps, fin)"
        by (cases "generate_frames A w1 ticks") auto
      show ?thesis
        using Cons.IH [OF tbl] \<open>cap_read t = Some px\<close> None it nxt run
        by (simp add: upt del: upt_Suc)
    next
      case (Some site)
      note r = loop_body_raises [OF Cons.prems, of A px "datetime_now t" "CURRENT_TIMESTAMP t" site]
      obtain w1 e where
        it: "loop_body A w px (datetime_now t) (CURRENT_TIMESTAMP t) (Some site) = (w1, Inl e)"
        using r by (cases "loop_body A w px (datetime_now t) (CURRENT_TIMESTAMP t) (Some site)") auto
      have d1: "db w1 = (if site = At_imencode then ?d else db w)"
        using r it by simp
      show ?thesis
        using \<open>cap_read t = Some px\<close> Some it d1 Cons.prems
        by (cases site) simp_all
    qed
  qed
qed





section \<open>The claims\<close>




text \<open>
  C2. With the \<open>users\<close> table in place, a run of the loop appends exactly one row per
  processed frame, behind the rows already there and in the order the frames were
  processed: the k-th new row carries the label, the file name and the timestamp of the
  k-th frame. The new ids are consecutive from the store's next id on: they are
  strictly increasing in that order, pairwise distinct, and larger than every id that
  was in the table.
\<close>

theorem one_record_per_frame_in_order:
  assumes "users_table (db w) = Some rows"
  shows "\<exists>new.
    users_table (db (fst (generate_frames A w ticks))) = Some (rows @ new) \<and>
    new = map2 (detection_record A)
            [next_rowid (db w) rows ..< next_rowid (db w) rows + length (processed ticks)]
            (processed ticks) \<and>
    length new = length (processed ticks) \<and>
    map detected_emotion new = map (\<lambda>fr. Some (analyze_emotion (A (fst fr)))) (processed ticks) \<and>
    map row_id new
      = [next_rowid (db w) rows ..< next_rowid (db w) rows + length (processed ticks)] \<and>
    sorted_wrt (<) (map row_id new) \<and>
    distinct (map row_id new) \<and>
    (\<forall>old \<in> set rows. \<forall>r \<in> set new. row_id old < row_id r)"
proof -
  let ?n = "length (processed ticks)"
  let ?i = "next_rowid (db w) rows"
  let ?new = "map2 (detection_record A) [?i ..< ?i + ?n] (processed ticks)"
  have tbl: "users_table (db (fst (generate_frames A w ticks))) = Some (rows @ ?new)"
    by (rule generate_frames_rows [OF assms])
  have len: "length [?i ..< ?i + ?n] = length (processed ticks)" by simp
  have ids: "map row_id ?new = [?i ..< ?i + ?n]"
    using len by (rule map2_row_id)
  have emo: "map detected_emotion ?new
      = map (\<lambda>fr. Some (analyze_emotion (A (fst fr)))) (processed ticks)"
    using map2_columns [OF len] by blast
  have ln: "length ?new = ?n" by simp
  have incr: "sorted_wrt (<) (map row_id ?new)"
    unfolding ids by (rule sorted_wrt_upt)
  have dist: "distinct (map row_id ?new)"
    unfolding ids by (rule distinct_upt)
  have above: "\<forall>old \<in> set rows. \<forall>r \<in> set ?new. row_id old < row_id r"
  proof (intro ballI)
    fix old r
    assume o: "old \<in> set rows" and r: "r \<in> set ?new"
    from r have "row_id r \<in> row_id ` set ?new" by (rule imageI)
    then have "row_id r \<in> set (map row_id ?new)" by (simp only: set_map)
    then have "?i \<le> row_id r" unfolding ids by simp
    with next_rowid_fresh [OF o, of "db w"] show "row_id old < row_id r" by simp
  qed
  from tbl ln emo ids incr dist above show ?thesis by blast
qed

theorem one_record_per_frame_in_order_witness:
  "users_table (db \<lparr>db = \<lparr>users_table = Some [], sqlite_sequence = 0\<rparr>, files = Map.empty,
       heap = Map.empty, next_addr = 0\<rparr>) = Some [] \<and>
   users_table (db (fst (generate_frames
       (\<lambda>px. if px = Captured 1 then Returns [[(''dominant_emotion'', ''happy'')]] else Raises)
       \<lparr>db = \<lparr>users_table = Some [], sqlite_sequence = 0\<rparr>, files = Map.empty,
         heap = Map.empty, next_addr = 0\<rparr>
       [\<lparr>cap_read = Some (Captured 1),
          datetime_now = \<lparr>year = 2026, month = 11, day = 3, hour = 14, minute = 2, second = 51, microsecond = 7\<rparr>,
          CURRENT_TIMESTAMP = 100, raising = None\<rparr>,
        \<lparr>cap_read = Some (Captured 2),
          datetime_now = \<lparr>year = 2026, month = 11, day = 3, hour = 14, minute = 2, second = 52, microsecond = 0\<rparr>,
          CURRENT_TIMESTAMP = 101, raising = None\<rparr>]))) =
     Some [\<lparr>row_id = 1, name = ''Anonymous'', usage_mode = Some ''online'',
            image_path = Some ''captured/20261103_140251.jpg'',
            detected_emotion = Some ''happy'', timestamp = 100\<rparr>,
           \<lparr>row_id = 2, name = ''Anonymous'', usage_mode = Some ''online'',
            image_path = Some ''captured/20261103_140252.jpg'',
            detected_emotion = Some ''No face detected'', timestamp = 101\<rparr>]"
proof -
  let ?w = "\<lparr>db = \<lparr>users_table = Some [], sqlite_sequence = 0\<rparr>, files = Map.empty,
       heap = Map.empty, next_addr = 0\<rparr>"
  have h: "users_table (db ?w) = Some []" by simp
  have f1: "image_filename \<lparr>year = 2026, month = 11, day = 3, hour = 14, minute = 2, second = 51, microsecond = 7\<rparr>
     = ''captured/20261103_140251.jpg''"
    by code_simp
  have f2: "image_filename \<lparr>year = 2026, month = 11, day = 3, hour = 14, minute = 2, second = 52, microsecond = 0\<rparr>
     = ''captured/20261103_140252.jpg''"
    by code_simp
  have u: "[Suc 0 ..< 3] = [1, 2]" by code_simp
  show ?thesis
    using one_record_per_frame_in_order [OF h, where
      A = "\<lambda>px. if px = Captured 1 then Returns [[(''dominant_emotion'', ''happy'')]] else Raises"
      and ticks = "[\<lparr>cap_read = Some (Captured 1),
          datetime_now = \<lparr>year = 2026, month = 11, day = 3, hour = 14, minute = 2, second = 51, microsecond = 7\<rparr>,
          CURRENT_TIMESTAMP = 100, raising = None\<rparr>,
        \<lparr>cap_read = Some (Captured 2),
          datetime_now = \<lparr>year = 2026, month = 11, day = 3, hour = 14, minute = 2, second = 52, microsecond = 0\<rparr>,
          CURRENT_TIMESTAMP = 101, raising = None\<rparr>]"]
    by (simp add: next_rowid_def f1 f2 u analyze_emotion_def)
qed

text \<open>
  C3. For every mode that is a text other than \<open>online\<close> and \<open>offline\<close>,
  \<open>save_user_result\<close> fails: it returns an error and no database, so the stored rows
  stay as they were. With the table in place and a name given, the error is the
  \<open>IntegrityError\<close> of the \<open>CHECK\<close> constraint.
\<close>

theorem save_user_result_rejects_mode:
  assumes "m \<noteq> ''online''" and "m \<noteq> ''offline''"
  shows "isl (save_user_result ts d nm (Some m) path emotion) \<and>
     (users_table d = Some rows \<and> nm = Some n \<longrightarrow>
        save_user_result ts d nm (Some m) path emotion = Inl IntegrityError_CHECK)"
  using assms
  by (simp add: save_user_result_def usage_mode_check_def split: option.splits)

theorem save_user_result_rejects_mode_witness:
  "''Online'' \<noteq> ''online'' \<and> ''Online'' \<noteq> ''offline'' \<and>
   save_user_result 100 \<lparr>users_table = Some [], sqlite_sequence = 0\<rparr>
     (Some ''Anonymous'') (Some ''Online'') (Some ''captured/20261103_140251.jpg'') (Some ''happy'')
     = Inl IntegrityError_CHECK"
proof -
  have h1: "''Online'' \<noteq> ''online''" and h2: "''Online'' \<noteq> ''offline''" by simp_all
  show ?thesis
    using save_user_result_rejects_mode [OF h1 h2, where d = "\<lparr>users_table = Some [], sqlite_sequence = 0\<rparr>"
        and rows = "[]" and nm = "Some ''Anonymous''" and n = "''Anonymous''" and ts = 100
        and path = "Some ''captured/20261103_140251.jpg''" and emotion = "Some ''happy''"]
    by simp
qed

text \<open>
  The mode \<open>None\<close> is outside \<open>{online, offline}\<close> too, and with it the insert goes
  through.
\<close>

theorem save_user_result_null_mode_counterexample:
  "None \<notin> {Some ''online'', Some ''offline''} \<and>
   save_user_result 100 \<lparr>users_table = Some [], sqlite_sequence = 0\<rparr>
     (Some ''Anonymous'') None (Some ''captured/20261103_140251.jpg'') (Some ''happy'')
     = Inr \<lparr>users_table = Some [\<lparr>row_id = 1, name = ''Anonymous'', usage_mode = None,
               image_path = Some ''captured/20261103_140251.jpg'',
               detected_emotion = Some ''happy'', timestamp = 100\<rparr>],
            sqlite_sequence = 1\<rparr>"
  by (simp add: save_user_result_def usage_mode_check_def next_rowid_def)

text \<open>
  C4. With the table in place, the query of \<open>users\<close> returns every stored row exactly
  once (the same multiset of rows, so as many rows as are stored), ordered by
  \<open>timestamp\<close>, largest first; it returns the empty list for an empty table. When the
  timestamps of the stored rows increase strictly in insertion order, the listing is
  the rows most recently inserted first.
\<close>

theorem users_select_by_timestamp:
  assumes "users_table d = Some rows"
  shows "users_select d = Inr (order_by_timestamp_desc rows) \<and>
    mset (order_by_timestamp_desc rows) = mset rows \<and>
    length (order_by_timestamp_desc rows) = length rows \<and>
    sorted_wrt (\<lambda>a b. timestamp b \<le> timestamp a) (order_by_timestamp_desc rows) \<and>
    (rows = [] \<longrightarrow> users_select d = Inr []) \<and>
    (sorted_wrt (<) (map timestamp rows) \<longrightarrow> order_by_timestamp_desc rows = rev rows)"
proof -
  have m: "mset (order_by_timestamp_desc rows) = mset rows"
    by (simp add: order_by_timestamp_desc_def mset_fold_insert_desc)
  then have "size (mset (order_by_timestamp_desc rows)) = size (mset rows)"
    by simp
  then have l: "length (order_by_timestamp_desc rows) = length rows"
    by simp
  have s: "sorted_wrt (\<lambda>a b. timestamp b \<le> timestamp a) (order_by_timestamp_desc rows)"
    unfolding order_by_timestamp_desc_def by (rule sorted_fold_insert_desc) simp
  have r: "order_by_timestamp_desc rows = rev rows" if "sorted_wrt (<) (map timestamp rows)"
    unfolding order_by_timestamp_desc_def
    using fold_insert_desc_increasing [OF that, of "[]"] by simp
  have q: "users_select d = Inr (order_by_timestamp_desc rows)"
    using assms by (simp add: users_select_def)
  have e: "users_select d = Inr []" if "rows = []"
    using q that by (simp add: order_by_timestamp_desc_def)
  from q m l s e r show ?thesis by blast
qed

theorem users_select_by_timestamp_witness:
  "users_table \<lparr>users_table = Some
       [\<lparr>row_id = 1, name = ''Anonymous'', usage_mode = Some ''online'',
          image_path = Some ''a.jpg'', detected_emotion = Some ''happy'', timestamp = 100\<rparr>,
        \<lparr>row_id = 2, name = ''Anonymous'', usage_mode = Some ''online'',
          image_path = Some ''b.jpg'', detected_emotion = Some ''sad'', timestamp = 101\<rparr>],
      sqlite_sequence = 2\<rparr> = Some
       [\<lparr>row_id = 1, name = ''Anonymous'', usage_mode = Some ''online'',
          image_path = Some ''a.jpg'', detected_emotion = Some ''happy'', timestamp = 100\<rparr>,
        \<lparr>row_id = 2, name = ''Anonymous'', usage_mode = Some ''online'',
          image_path = Some ''b.jpg'', detected_emotion = Some ''sad'', timestamp = 101\<rparr>] \<and>
   users_select \<lparr>users_table = Some
       [\<lparr>row_id = 1, name = ''Anonymous'', usage_mode = Some ''online'',
          image_path = Some ''a.jpg'', detected_emotion = Some ''happy'', timestamp = 100\<rparr>,
        \<lparr>row_id = 2, name = ''Anonymous'', usage_mode = Some ''online'',
          image_path = Some ''b.jpg'', detected_emotion = Some ''sad'', timestamp = 101\<rparr>],
      sqlite_sequence = 2\<rparr> = Inr
       [\<lparr>row_id = 2, name = ''Anonymous'', usage_mode = Some ''online'',
          image_path = Some ''b.jpg'', detected_emotion = Some ''sad'', timestamp = 101\<rparr>,
        \<lparr>row_id = 1, name = ''Anonymous'', usage_mode = Some ''online'',
          image_path = Some ''a.jpg'', detected_emotion = Some ''happy'', timestamp = 100\<rparr>]"
proof -
  let ?rows = "[\<lparr>row_id = 1, name = ''Anonymous'', usage_mode = Some ''online'',
          image_path = Some ''a.jpg'', detected_emotion = Some ''happy'', timestamp = 100\<rparr>,
        \<lparr>row_id = 2, name = ''Anonymous'', usage_mode = Some ''online'',
          image_path = Some ''b.jpg'', detected_emotion = Some ''sad'', timestamp = 101\<rparr>]"
  have h: "users_table \<lparr>users_table = Some ?rows, sqlite_sequence = 2\<rparr> = Some ?rows" by simp
  show ?thesis
    using users_select_by_timestamp [OF h] by simp
qed

text \<open>
  Two rows inserted within the same second have the same timestamp, and the listing
  gives them oldest first: the most recently inserted row is last.
\<close>

theorem users_select_same_second_counterexample:
  "users_select
     (projr (save_user_result 100
       (projr (save_user_result 100 (init_db \<lparr>users_table = None, sqlite_sequence = 0\<rparr>)
          (Some ''Anonymous'') (Some ''online'') (Some ''a.jpg'') (Some ''happy'')))
       (Some ''Anonymous'') (Some ''online'') (Some ''b.jpg'') (Some ''sad'')))
   = Inr
       [\<lparr>row_id = 1, name = ''Anonymous'', usage_mode = Some ''online'',
          image_path = Some ''a.jpg'', detected_emotion = Some ''happy'', timestamp = 100\<rparr>,
        \<lparr>row_id = 2, name = ''Anonymous'', usage_mode = Some ''online'',
          image_path = Some ''b.jpg'', detected_emotion = Some ''sad'', timestamp = 100\<rparr>]"
  by (simp add: users_select_def order_by_timestamp_desc_def save_user_result_def init_db_def
      usage_mode_check_def next_rowid_def)

text \<open>
  C5. The annotation step draws the label into the array it is given, in place: after
  the pass the array that \<open>cap.read()\<close> returned holds the annotated image, no other
  array has changed or come into being, and it is this array that is written to the
  artifact file and encoded into the payload.
\<close>

theorem annotation_in_place:
  "heap (fst (iteration A w px now ts)) (next_addr w) = Some (annotated A px) \<and>
   (\<forall>a. a \<noteq> next_addr w \<longrightarrow> heap (fst (iteration A w px now ts)) a = heap w a) \<and>
   files (fst (iteration A w px now ts)) (image_filename now) = Some (annotated A px) \<and>
   (users_table (db w) = Some rows \<longrightarrow>
      snd (iteration A w px now ts) =
        Inr [Ascii (''--frame'' @ CRLF @ ''Content-Type: image/jpeg'' @ CRLF @ CRLF),
             Jpeg (annotated A px), Ascii CRLF]) \<and>
   (h frame = Some raw \<longrightarrow>
      cv2_putText h frame label org fontFace fontScale color thickness
        = h(frame \<mapsto> PutText raw label org fontFace fontScale color thickness))"
proof -
  have "snd (iteration A w px now ts) =
        Inr [Ascii (''--frame'' @ CRLF @ ''Content-Type: image/jpeg'' @ CRLF @ CRLF),
             Jpeg (annotated A px), Ascii CRLF]"
    if "users_table (db w) = Some rows"
    by (simp add: iteration_ok [OF that])
  then show ?thesis
    by (simp add: heap_iteration files_iteration cv2_putText_def)
qed

theorem annotation_in_place_witness:
  "heap (fst (iteration (\<lambda>px. Returns [[(''dominant_emotion'', ''happy'')]])
       \<lparr>db = \<lparr>users_table = Some [], sqlite_sequence = 0\<rparr>, files = Map.empty,
         heap = [0 \<mapsto> Captured 0], next_addr = 1\<rparr>
       (Captured 1)
       \<lparr>year = 2026, month = 11, day = 3, hour = 14, minute = 2, second = 51, microsecond = 7\<rparr>
       100)) 1
     = Some (PutText (Captured 1) ''Mood: happy'' (50, 50) FONT_HERSHEY_SIMPLEX 1 (0, 255, 0) 2) \<and>
   heap (fst (iteration (\<lambda>px. Returns [[(''dominant_emotion'', ''happy'')]])
       \<lparr>db = \<lparr>users_table = Some [], sqlite_sequence = 0\<rparr>, files = Map.empty,
         heap = [0 \<mapsto> Captured 0], next_addr = 1\<rparr>
       (Captured 1)
       \<lparr>year = 2026, month = 11, day = 3, hour = 14, minute = 2, second = 51, microsecond = 7\<rparr>
       100)) 0
     = Some (Captured 0) \<and>
   snd (iteration (\<lambda>px. Returns [[(''dominant_emotion'', ''happy'')]])
       \<lparr>db = \<lparr>users_table = Some [], sqlite_sequence = 0\<rparr>, files = Map.empty,
         heap = [0 \<mapsto> Captured 0], next_addr = 1\<rparr>
       (Captured 1)
       \<lparr>year = 2026, month = 11, day = 3, hour = 14, minute = 2, second = 51, microsecond = 7\<rparr>
       100)
     = Inr [Ascii (''--frame'' @ CRLF @ ''Content-Type: image/jpeg'' @ CRLF @ CRLF),
            Jpeg (PutText (Captured 1) ''Mood: happy'' (50, 50) FONT_HERSHEY_SIMPLEX 1 (0, 255, 0) 2),
            Ascii CRLF] \<and>
   cv2_putText [0 \<mapsto> Captured 0] 0 ''Mood: happy'' (50, 50) FONT_HERSHEY_SIMPLEX 1 (0, 255, 0) 2
     = [0 \<mapsto> PutText (Captured 0) ''Mood: happy'' (50, 50) FONT_HERSHEY_SIMPLEX 1 (0, 255, 0) 2]"
  using annotation_in_place [where A = "\<lambda>px. Returns [[(''dominant_emotion'', ''happy'')]]"
      and w = "\<lparr>db = \<lparr>users_table = Some [], sqlite_sequence = 0\<rparr>, files = Map.empty,
         heap = [0 \<mapsto> Captured 0], next_addr = 1\<rparr>"
      and px = "Captured 1" and ts = 100 and rows = "[]"
      and now = "\<lparr>year = 2026, month = 11, day = 3, hour = 14, minute = 2, second = 51, microsecond = 7\<rparr>"
      and h = "[0 \<mapsto> Captured 0]" and frame = 0 and raw = "Captured 0"
      and label = "''Mood: happy''" and org = "(50, 50)" and fontFace = FONT_HERSHEY_SIMPLEX
      and fontScale = 1 and color = "(0, 255, 0)" and thickness = 2]
  by (simp add: analyze_emotion_def)

text \<open>
  The frame passed into the annotation is not what it was: the array that held the raw
  frame holds the frame with the label drawn on it.
\<close>

theorem annotation_mutates_frame_counterexample:
  "heap (fst (iteration (\<lambda>px. Returns [[(''dominant_emotion'', ''happy'')]])
       \<lparr>db = \<lparr>users_table = Some [], sqlite_sequence = 0\<rparr>, files = Map.empty,
         heap = Map.empty, next_addr = 0\<rparr>
       (Captured 0)
       \<lparr>year = 2026, month = 11, day = 3, hour = 14, minute = 2, second = 51, microsecond = 7\<rparr>
       100)) 0
     = Some (PutText (Captured 0) ''Mood: happy'' (50, 50) FONT_HERSHEY_SIMPLEX 1 (0, 255, 0) 2) \<and>
   heap (fst (iteration (\<lambda>px. Returns [[(''dominant_emotion'', ''happy'')]])
       \<lparr>db = \<lparr>users_table = Some [], sqlite_sequence = 0\<rparr>, files = Map.empty,
         heap = Map.empty, next_addr = 0\<rparr>
       (Captured 0)
       \<lparr>year = 2026, month = 11, day = 3, hour = 14, minute = 2, second = 51, microsecond = 7\<rparr>
       100)) 0
     \<noteq> Some (Captured 0)"
  by (simp add: iteration_def save_user_result_def usage_mode_check_def analyze_emotion_def
      cv2_putText_def Let_def)

text \<open>
  C6. \<open>init_db\<close> is idempotent, and on a database whose table exists it changes
  nothing: called twice in succession it leaves the database, with its rows and its id
  counter, as it was.
\<close>

theorem init_db_idempotent:
  "init_db (init_db d) = init_db d \<and>
   (users_table d = Some rows \<longrightarrow>
      init_db d = d \<and> init_db (init_db d) = d \<and>
      users_table (init_db (init_db d)) = Some rows \<and>
      sqlite_sequence (init_db (init_db d)) = sqlite_sequence d)"
  by (simp add: init_db_def split: option.splits)

theorem init_db_idempotent_witness:
  "users_table \<lparr>users_table = Some [\<lparr>row_id = 1, name = ''Anonymous'', usage_mode = Some ''online'',
        image_path = Some ''captured/20261103_140251.jpg'', detected_emotion = Some ''happy'', timestamp = 100\<rparr>], sqlite_sequence = 1\<rparr>
     = Some [\<lparr>row_id = 1, name = ''Anonymous'', usage_mode = Some ''online'',
        image_path = Some ''captured/20261103_140251.jpg'', detected_emotion = Some ''happy'', timestamp = 100\<rparr>] \<and>
   init_db (init_db \<lparr>users_table = Some [\<lparr>row_id = 1, name = ''Anonymous'', usage_mode = Some ''online'',
        image_path = Some ''captured/20261103_140251.jpg'', detected_emotion = Some ''happy'', timestamp = 100\<rparr>], sqlite_sequence = 1\<rparr>)
     = \<lparr>users_table = Some [\<lparr>row_id = 1, name = ''Anonymous'', usage_mode = Some ''online'',
        image_path = Some ''captured/20261103_140251.jpg'', detected_emotion = Some ''happy'', timestamp = 100\<rparr>], sqlite_sequence = 1\<rparr>"
  using init_db_idempotent [of "\<lparr>users_table = Some [\<lparr>row_id = 1, name = ''Anonymous'', usage_mode = Some ''online'',
        image_path = Some ''captured/20261103_140251.jpg'', detected_emotion = Some ''happy'', timestamp = 100\<rparr>], sqlite_sequence = 1\<rparr>"
       "[\<lparr>row_id = 1, name = ''Anonymous'', usage_mode = Some ''online'',
        image_path = Some ''captured/20261103_140251.jpg'', detected_emotion = Some ''happy'', timestamp = 100\<rparr>]"]
  by simp




text \<open>
  C8. Two frames processed at clock readings that agree up to the second get the same
  artifact path. After the first pass the file holds the first annotated frame; after
  the second pass it holds the second one, and both rows name that one path.
\<close>

theorem same_second_same_artifact:
  assumes "year t2 = year t1" and "month t2 = month t1" and "day t2 = day t1"
    and "hour t2 = hour t1" and "minute t2 = minute t1" and "second t2 = second t1"
    and "users_table (db w) = Some rows"
  shows "image_filename t2 = image_filename t1 \<and>
    files (fst (iteration A w px1 t1 s1)) (image_filename t1) = Some (annotated A px1) \<and>
    files (fst (iteration A (fst (iteration A w px1 t1 s1)) px2 t2 s2)) (image_filename t1)
      = Some (annotated A px2) \<and>
    users_table (db (fst (iteration A (fst (iteration A w px1 t1 s1)) px2 t2 s2)))
      = Some (rows @ [detection_record A (next_rowid (db w) rows) (px1, t1, s1),
                      detection_record A (Suc (next_rowid (db w) rows)) (px2, t1, s2)])"
proof -
  have name: "image_filename t2 = image_filename t1"
    using assms(1-6) by (simp add: image_filename_def strftime_Ymd_HMS_def)
  let ?i = "next_rowid (db w) rows"
  let ?r = "detection_record A ?i (px1, t1, s1)"
  let ?w1 = "fst (iteration A w px1 t1 s1)"
  have d1: "db ?w1 = (db w)\<lparr>users_table := Some (rows @ [?r]), sqlite_sequence := ?i\<rparr>"
    by (simp add: iteration_ok [OF assms(7)])
  then have tbl: "users_table (db ?w1) = Some (rows @ [?r])" by simp
  have nxt: "next_rowid (db ?w1) (rows @ [?r]) = Suc ?i"
    by (subst d1, rule next_rowid_after_insert) simp
  have recs: "users_table (db (fst (iteration A ?w1 px2 t2 s2)))
      = Some (rows @ [?r, detection_record A (Suc ?i) (px2, t1, s2)])"
    using nxt by (simp add: iteration_ok [OF tbl] name)
  show ?thesis
    using name recs by (simp add: files_iteration)
qed

theorem same_second_same_artifact_witness:
  "second \<lparr>year = 2026, month = 11, day = 3, hour = 14, minute = 2, second = 51, microsecond = 900000\<rparr>
     = second \<lparr>year = 2026, month = 11, day = 3, hour = 14, minute = 2, second = 51, microsecond = 7\<rparr> \<and>
   image_filename \<lparr>year = 2026, month = 11, day = 3, hour = 14, minute = 2, second = 51, microsecond = 900000\<rparr>
     = image_filename \<lparr>year = 2026, month = 11, day = 3, hour = 14, minute = 2, second = 51, microsecond = 7\<rparr> \<and>
   files (fst (iteration (\<lambda>px. Raises)
      (fst (iteration (\<lambda>px. Raises)
         \<lparr>db = \<lparr>users_table = Some [], sqlite_sequence = 0\<rparr>, files = Map.empty,
           heap = Map.empty, next_addr = 0\<rparr>
         (Captured 1)
         \<lparr>year = 2026, month = 11, day = 3, hour = 14, minute = 2, second = 51, microsecond = 7\<rparr>
         100))
      (Captured 2)
      \<lparr>year = 2026, month = 11, day = 3, hour = 14, minute = 2, second = 51, microsecond = 900000\<rparr>
      100))
     ''captured/20261103_140251.jpg''
     = Some (PutText (Captured 2) ''Mood: No face detected'' (50, 50) FONT_HERSHEY_SIMPLEX 1 (0, 255, 0) 2)"
proof -
  let ?w = "\<lparr>db = \<lparr>users_table = Some [], sqlite_sequence = 0\<rparr>, files = Map.empty,
       heap = Map.empty, next_addr = 0\<rparr>"
  let ?t1 = "\<lparr>year = 2026, month = 11, day = 3, hour = 14, minute = 2, second = 51, microsecond = 7\<rparr>"
  let ?t2 = "\<lparr>year = 2026, month = 11, day = 3, hour = 14, minute = 2, second = 51, microsecond = 900000\<rparr>"
  have h: "users_table (db ?w) = Some []" by simp
  have y: "year ?t2 = year ?t1" and mo: "month ?t2 = month ?t1" and d: "day ?t2 = day ?t1"
    and ho: "hour ?t2 = hour ?t1" and mi: "minute ?t2 = minute ?t1" and se: "second ?t2 = second ?t1"
    by simp_all
  have f1: "image_filename ?t1 = ''captured/20261103_140251.jpg''"
    by code_simp
  show ?thesis
    using same_second_same_artifact [OF y mo d ho mi se h, where A = "\<lambda>px. Raises"
      and ?px1.0 = "Captured 1" and ?px2.0 = "Captured 2" and ?s1.0 = 100 and ?s2.0 = 100]
    by (simp add: f1 analyze_emotion_def)
qed

text \<open>
  C9. With the table in place and a name given, \<open>save_user_result\<close> with the mode
  \<open>None\<close> succeeds and appends a row whose \<open>usage_mode\<close> is \<open>NULL\<close>: the
  \<open>CHECK\<close> constraint passes exactly \<open>NULL\<close>, \<open>online\<close> and \<open>offline\<close>.
\<close>

theorem save_user_result_accepts_null_mode:
  assumes "users_table d = Some rows"
  shows "save_user_result ts d (Some n) None path emotion =
      Inr (d\<lparr>users_table :=
               Some (rows @ [\<lparr>row_id = next_rowid d rows, name = n, usage_mode = None,
                              image_path = path, detected_emotion = emotion, timestamp = ts\<rparr>]),
             sqlite_sequence := next_rowid d rows\<rparr>) \<and>
    usage_mode_check mode = (mode = None \<or> mode = Some ''online'' \<or> mode = Some ''offline'')"
  using assms
  by (auto simp: save_user_result_def usage_mode_check_def Let_def split: option.splits)

theorem save_user_result_accepts_null_mode_witness:
  "users_table \<lparr>users_table = Some [], sqlite_sequence = 0\<rparr> = Some [] \<and>
   save_user_result 100 \<lparr>users_table = Some [], sqlite_sequence = 0\<rparr>
     (Some ''Anonymous'') None (Some ''a.jpg'') (Some ''happy'')
     = Inr \<lparr>users_table = Some [\<lparr>row_id = 1, name = ''Anonymous'', usage_mode = None,
               image_path = Some ''a.jpg'', detected_emotion = Some ''happy'', timestamp = 100\<rparr>],
            sqlite_sequence = 1\<rparr>"
proof -
  have h: "users_table \<lparr>users_table = Some [], sqlite_sequence = 0\<rparr> = Some []" by simp
  show ?thesis
    using save_user_result_accepts_null_mode [OF h, where ts = 100 and n = "''Anonymous''"
        and path = "Some ''a.jpg''" and emotion = "Some ''happy''"]
    by (simp add: next_rowid_def)
qed



end
